theory Spec2Isabelle
  imports Main "HOL-Library.Multiset"
begin

section \<open>Values handed to the database driver\<close>

text \<open>
  A handler passes JavaScript values to \<open>pool.query\<close>: a route parameter
  (\<open>req.params.x\<close>) is always a string, a body field (\<open>req.body.x\<close>) is a JSON
  number or string, and a field that is absent is \<open>undefined\<close>, which the driver
  sends as SQL NULL. Only integers, strings and the absent value are modelled.
\<close>

datatype param = PNum int | PText string | PNull

datatype db_error = DataException | NotNullViolation | ForeignKeyViolation

text \<open>
  The server reads a text parameter that stands where an integer column is
  compared or assigned as a decimal integer: an optional minus sign and at least
  one digit. Anything else is an error of the statement. (The other spellings
  the server accepts, such as a plus sign or blanks around the digits, are left
  out.)
\<close>

definition digit_of :: "char \<Rightarrow> nat option" where
  "digit_of c = map_of (zip ''0123456789'' [0, 1, 2, 3, 4, 5, 6, 7, 8, 9]) c"

fun digits_val :: "nat \<Rightarrow> string \<Rightarrow> nat option" where
  "digits_val acc [] = Some acc"
| "digits_val acc (c # cs) =
     (case digit_of c of None \<Rightarrow> None | Some k \<Rightarrow> digits_val (10 * acc + k) cs)"

definition decimal_in :: "string \<Rightarrow> int option" where
  "decimal_in s =
     (case s of
        [] \<Rightarrow> None
      | c # cs \<Rightarrow>
          if c = CHR ''-''
          then (if cs = [] then None else map_option (\<lambda>n. - int n) (digits_val 0 cs))
          else map_option int (digits_val 0 s))"

text \<open>
  Modelled from the spec: the schema file is not among the sources. The id and
  order columns are of the type \<open>integer\<close> (the router's documentation gives
  every id and the order as \<open>type: integer\<close>), whose values are the 32-bit signed
  integers. A decimal beyond that range is an error of the statement as well.
\<close>

definition integer_range :: "int \<Rightarrow> bool" where
  "integer_range n = (- 2147483648 \<le> n \<and> n \<le> 2147483647)"

definition int_in :: "string \<Rightarrow> int option" where
  "int_in s =
     (case decimal_in s of
        None \<Rightarrow> None
      | Some n \<Rightarrow> if integer_range n then Some n else None)"

text \<open>A JavaScript integer is sent as its decimal text.\<close>

definition digit_char :: "nat \<Rightarrow> char" where
  "digit_char k = ''0123456789'' ! (k mod 10)"

function show_nat :: "nat \<Rightarrow> string" where
  "show_nat n = (if n < 10 then [digit_char n] else show_nat (n div 10) @ [digit_char n])"
  by pat_completeness auto
termination
  by (relation "measure (\<lambda>n. n)") auto

declare show_nat.simps [simp del]

definition show_int :: "int \<Rightarrow> string" where
  "show_int i = (if i < 0 then CHR ''-'' # show_nat (nat (- i)) else show_nat (nat i))"

text \<open>
  Binding a parameter to an integer position gives NULL (\<open>None\<close>), an integer of
  the column's range, or the data exception of a text that is no integer or of a
  number out of range. Binding to a text position never fails.
\<close>

fun bind_int :: "param \<Rightarrow> db_error + int option" where
  "bind_int PNull = Inr None"
| "bind_int (PNum n) = (if integer_range n then Inr (Some n) else Inl DataException)"
| "bind_int (PText s) =
     (case int_in s of None \<Rightarrow> Inl DataException | Some n \<Rightarrow> Inr (Some n))"

fun bind_text :: "param \<Rightarrow> string option" where
  "bind_text PNull = None"
| "bind_text (PNum n) = Some (show_int n)"
| "bind_text (PText s) = Some s"

section \<open>The pipeline tables\<close>

text \<open>
  Modelled from the spec: the schema file is not among the sources. The tables
  have the columns the queries of the pipeline router read and write (section 3
  of the specification); every column is NOT NULL, \<open>pipeline_status.pipeline_id\<close>
  and \<open>user_status.pipeline_status_id\<close> are foreign keys with ON DELETE CASCADE
  (the router's documentation of the status delete says so), and a table is the
  list of its rows.
\<close>

record pipeline_row =
  p_id :: int
  p_name :: string

record pipeline_status_row =
  ps_id :: int
  ps_pipeline_id :: int
  ps_name :: string
  ps_order :: int

record user_status_row =
  us_user_id :: int
  us_pipeline_status_id :: int

record user_row =
  u_id :: int
  u_username :: string

record db =
  pipeline :: "pipeline_row list"
  pipeline_status :: "pipeline_status_row list"
  user_status :: "user_status_row list"
  users :: "user_row list"

section \<open>Requests, replies and routing\<close>

datatype http_method = GET | POST | PUT | DELETE

text \<open>
  What a handler reads of a request: the route parameters the router bound, the
  JSON body, and whether the request carries a session. The method and the path
  are consumed by the router (\<open>dispatch\<close> below).
\<close>

record request =
  req_params :: "(string \<times> string) list"
  req_body :: "(string \<times> param) list"
  req_authenticated :: bool

text \<open>\<open>req.params.k\<close> and \<open>req.body.k\<close>: an absent key reads as \<open>undefined\<close>.\<close>

definition params :: "request \<Rightarrow> string \<Rightarrow> param" where
  "params req k = (case map_of (req_params req) k of None \<Rightarrow> PNull | Some s \<Rightarrow> PText s)"

definition body :: "request \<Rightarrow> string \<Rightarrow> param" where
  "body req k = (case map_of (req_body req) k of None \<Rightarrow> PNull | Some v \<Rightarrow> v)"

text \<open>The row of the Kanban query, with the names the query gives its columns.\<close>

record detail_row =
  pipeline_name :: string
  pipeline_status_id :: int
  pipeline_status_name :: string
  order :: int
  user_id :: int
  username :: string

text \<open>
  \<open>res.sendStatus n\<close>, \<open>res.json rows\<close>, and the answer of the authentication
  middleware to a request without a session (the middleware is not among the
  sources; only that it answers instead of the handler is used).
\<close>

datatype reply = SendStatus nat | SendRows "detail_row list" | Rejected

text \<open>
  A route path and a request path are compared segment by segment, split at
  \<open>/\<close>. A segment of the route that starts with a colon matches any non-empty
  segment and binds it under its name; any other segment matches itself only.
  Request paths are taken as the router sees them: they start with \<open>/\<close>, carry no
  trailing \<open>/\<close> and are in the case the routes are written in.
\<close>

fun split_slash :: "string \<Rightarrow> string list" where
  "split_slash [] = [[]]"
| "split_slash (c # cs) =
     (if c = CHR ''/'' then [] # split_slash cs
      else (case split_slash cs of [] \<Rightarrow> [[c]] | w # ws \<Rightarrow> (c # w) # ws))"

fun match_segments :: "string list \<Rightarrow> string list \<Rightarrow> (string \<times> string) list option" where
  "match_segments [] [] = Some []"
| "match_segments (p # ps) (s # ss) =
     (case p of
        c # name \<Rightarrow>
          if c = CHR '':''
          then (if s = [] then None
                else map_option (\<lambda>bs. (name, s) # bs) (match_segments ps ss))
          else (if p = s then match_segments ps ss else None)
      | [] \<Rightarrow> (if s = [] then match_segments ps ss else None))"
| "match_segments _ _ = None"

definition match_path :: "string \<Rightarrow> string \<Rightarrow> (string \<times> string) list option" where
  "match_path pattern path = match_segments (split_slash pattern) (split_slash path)"

text \<open>The routes of the pipeline router, in the order the source registers them.\<close>

datatype handler =
  GetPipelines | GetPipelineDetail | PostPipeline | DeletePipeline | PutPipeline
  | PostStatus | DeletePipelineStatus | PutPipelineStatus
  | PostUserStatus | PutUserStatus | PutUserStatusRemove

definition routes :: "(http_method \<times> string \<times> handler) list" where
  "routes =
     [(GET, ''/'', GetPipelines),
      (GET, ''/:pipelineId'', GetPipelineDetail),
      (POST, ''/'', PostPipeline),
      (DELETE, ''/:id'', DeletePipeline),
      (PUT, ''/:id'', PutPipeline),
      (POST, ''/status'', PostStatus),
      (DELETE, ''/pipeline_status/:id'', DeletePipelineStatus),
      (PUT, ''pipeline_status/:id'', PutPipelineStatus),
      (POST, ''/user_status'', PostUserStatus),
      (PUT, ''/user_status/:userId'', PutUserStatus),
      (PUT, ''/user_status/remove'', PutUserStatusRemove)]"

text \<open>
  The router gives a request to the first route of its method whose path
  matches. No handler of this router passes the request on, so a later route
  that matches too is never run.
\<close>

fun first_match ::
  "(http_method \<times> string \<times> handler) list \<Rightarrow> http_method \<Rightarrow> string
     \<Rightarrow> (handler \<times> (string \<times> string) list) option" where
  "first_match [] m path = None"
| "first_match ((m', pattern, h) # rs) m path =
     (if m' = m
      then (case match_path pattern path of
              Some bs \<Rightarrow> Some (h, bs)
            | None \<Rightarrow> first_match rs m path)
      else first_match rs m path)"

definition dispatch :: "http_method \<Rightarrow> string \<Rightarrow> (handler \<times> (string \<times> string) list) option" where
  "dispatch m path = first_match routes m path"

text \<open>The handler found, with the request as the router hands it over.\<close>

definition route_request ::
  "http_method \<Rightarrow> string \<Rightarrow> (string \<times> param) list \<Rightarrow> bool \<Rightarrow> (handler \<times> request) option" where
  "route_request m path b session =
     (case dispatch m path of
        None \<Rightarrow> None
      | Some (h, bs) \<Rightarrow>
          Some (h, \<lparr>req_params = bs, req_body = b, req_authenticated = session\<rparr>))"

definition rejectUnauthenticated :: "request \<Rightarrow> db \<Rightarrow> (reply \<times> db) \<Rightarrow> reply \<times> db" where
  "rejectUnauthenticated req d run = (if req_authenticated req then run else (Rejected, d))"

section \<open>The handlers of the pipeline router\<close>

subsection \<open>GET /:pipelineId\<close>

text \<open>
  FROM user_status JOIN pipeline_status JOIN pipeline JOIN "user" WHERE
  pipeline.id = $1: one row for every combination of a user_status row, the
  status it points to, the pipeline of that status and the user it points to.
\<close>

definition detail_join :: "int \<Rightarrow> db \<Rightarrow> detail_row list" where
  "detail_join pid d =
     [\<lparr>pipeline_name = p_name p, pipeline_status_id = ps_id ps,
        pipeline_status_name = ps_name ps, order = ps_order ps,
        user_id = u_id u, username = u_username u\<rparr>.
      us \<leftarrow> user_status d,
      ps \<leftarrow> pipeline_status d, us_pipeline_status_id us = ps_id ps,
      p \<leftarrow> pipeline d, ps_pipeline_id ps = p_id p,
      u \<leftarrow> users d, us_user_id us = u_id u,
      p_id p = pid]"

text \<open>
  ORDER BY pipeline_status.order. The order of rows with equal keys is not fixed
  by the query; the model keeps them in the order of the join.
\<close>

definition select_detail :: "int option \<Rightarrow> db \<Rightarrow> detail_row list" where
  "select_detail v d =
     (case v of None \<Rightarrow> [] | Some pid \<Rightarrow> sort_key order (detail_join pid d))"

definition get_pipeline_detail :: "request \<Rightarrow> db \<Rightarrow> reply \<times> db" where
  "get_pipeline_detail req d =
     (let pipelineId = params req ''pipelineId'' in
      case bind_int pipelineId of
        Inl e \<Rightarrow> (SendStatus 500, d)
      | Inr v \<Rightarrow> (SendRows (select_detail v d), d))"

subsection \<open>DELETE /:id\<close>



subsection \<open>PUT /:id\<close>



subsection \<open>PUT pipeline_status/:id\<close>

text \<open>
  UPDATE "pipeline_status" SET "order"=$1, "name"=$2 WHERE "id"= $3. The
  statement takes its three parameters by position.
\<close>

definition sql_update_pipeline_status ::
  "param \<Rightarrow> param \<Rightarrow> param \<Rightarrow> db \<Rightarrow> db_error + db" where
  "sql_update_pipeline_status a1 a2 a3 d =
     (case bind_int a1 of
        Inl e \<Rightarrow> Inl e
      | Inr new_order \<Rightarrow>
          (case bind_int a3 of
             Inl e \<Rightarrow> Inl e
           | Inr v \<Rightarrow>
               if filter (\<lambda>ps. Some (ps_id ps) = v) (pipeline_status d) = [] then Inr d
               else (case (new_order, bind_text a2) of
                       (Some k, Some n) \<Rightarrow>
                         Inr (d\<lparr>pipeline_status :=
                                map (\<lambda>ps. if Some (ps_id ps) = v
                                           then ps\<lparr>ps_order := k, ps_name := n\<rparr> else ps)
                                  (pipeline_status d)\<rparr>)
                     | _ \<Rightarrow> Inl NotNullViolation)))"

definition put_pipeline_status :: "request \<Rightarrow> db \<Rightarrow> reply \<times> db" where
  "put_pipeline_status req d =
     rejectUnauthenticated req d
       (let pipelineStatusId = params req ''id'';
            pipelineStatusOrder = body req ''order'';
            pipelineStatusName = body req ''name''
        in case sql_update_pipeline_status
                  pipelineStatusId pipelineStatusOrder pipelineStatusName d of
             Inl e \<Rightarrow> (SendStatus 500, d)
           | Inr d' \<Rightarrow> (SendStatus 200, d'))"

subsection \<open>PUT /user_status/:userId\<close>

text \<open>
  UPDATE "user_status" SET "pipeline_status_id" = $1 WHERE "user_id" = $2. A row
  that takes the new value must point to a status that exists.
\<close>

definition sql_update_user_status :: "param \<Rightarrow> param \<Rightarrow> db \<Rightarrow> db_error + db" where
  "sql_update_user_status a1 a2 d =
     (case bind_int a1 of
        Inl e \<Rightarrow> Inl e
      | Inr new \<Rightarrow>
          (case bind_int a2 of
             Inl e \<Rightarrow> Inl e
           | Inr v \<Rightarrow>
               if filter (\<lambda>us. Some (us_user_id us) = v) (user_status d) = [] then Inr d
               else (case new of
                       None \<Rightarrow> Inl NotNullViolation
                     | Some k \<Rightarrow>
                         if k \<in> set (map ps_id (pipeline_status d))
                         then Inr (d\<lparr>user_status :=
                                     map (\<lambda>us. if Some (us_user_id us) = v
                                                then us\<lparr>us_pipeline_status_id := k\<rparr> else us)
                                       (user_status d)\<rparr>)
                         else Inl ForeignKeyViolation)))"

definition put_user_status :: "request \<Rightarrow> db \<Rightarrow> reply \<times> db" where
  "put_user_status req d =
     rejectUnauthenticated req d
       (let userId = params req ''userId'';
            newPipelineStatusId = body req ''pipeline_status_id''
        in case sql_update_user_status newPipelineStatusId userId d of
             Inl e \<Rightarrow> (SendStatus 500, d)
           | Inr d' \<Rightarrow> (SendStatus 200, d'))"

section \<open>The form router\<close>

text \<open>
  Modelled from the spec: the schema file is not among the sources. The tables
  have the columns that the query of GET /:formId/all reads, and the archived
  flag of a question is a boolean.
\<close>

record form_row =
  f_id :: int
  f_name :: string

record section_row =
  s_id :: int
  s_form_id :: int
  s_name :: string
  s_description :: string
  s_order :: int

record question_row =
  q_id :: int
  q_section_id :: int
  q_question :: string
  q_description :: string
  q_order :: int
  q_answer_type :: string
  q_archived :: bool

record mc_answer_row =
  mc_id :: int
  mc_question_id :: int
  mc_answer :: string

record form_db =
  forms :: "form_row list"
  sections :: "section_row list"
  question :: "question_row list"
  multiple_choice_answers :: "mc_answer_row list"

text \<open>
  The nested document of the query, one record for each \<open>json_build_object\<close>.
  \<open>json_agg\<close> over no rows is NULL, not the empty array.
\<close>

record mc_answer_doc =
  mcd_type :: string
  mcd_id :: int
  mcd_answer :: string

record question_doc =
  qd_type :: string
  qd_question :: string
  qd_description :: string
  qd_order :: int
  qd_answer_type :: string
  qd_multiple_choice_answers :: "mc_answer_doc list option"

record section_doc =
  sd_type :: string
  sd_id :: int
  sd_order :: int
  sd_name :: string
  sd_description :: string
  sd_questions :: "question_doc list option"

record form_doc =
  fd_type :: string
  fd_id :: int
  fd_name :: string
  fd_sections :: "section_doc list option"

definition json_agg :: "'a list \<Rightarrow> 'a list option" where
  "json_agg xs = (if xs = [] then None else Some xs)"

definition mc_answer_object :: "mc_answer_row \<Rightarrow> mc_answer_doc" where
  "mc_answer_object a = \<lparr>mcd_type = ''MCAnswer'', mcd_id = mc_id a, mcd_answer = mc_answer a\<rparr>"

definition question_object :: "form_db \<Rightarrow> question_row \<Rightarrow> question_doc" where
  "question_object d q =
     \<lparr>qd_type = ''Question'', qd_question = q_question q,
      qd_description = q_description q, qd_order = q_order q,
      qd_answer_type = q_answer_type q,
      qd_multiple_choice_answers =
        json_agg (map mc_answer_object
          (filter (\<lambda>a. mc_question_id a = q_id q) (multiple_choice_answers d)))\<rparr>"

definition section_object :: "form_db \<Rightarrow> section_row \<Rightarrow> section_doc" where
  "section_object d s =
     \<lparr>sd_type = ''Section'', sd_id = s_id s, sd_order = s_order s, sd_name = s_name s,
      sd_description = s_description s,
      sd_questions =
        json_agg (map (question_object d)
          (filter (\<lambda>q. q_section_id q = s_id s \<and> q_archived q = False) (question d)))\<rparr>"

definition select_form :: "int option \<Rightarrow> form_db \<Rightarrow> form_doc list" where
  "select_form v d =
     map (\<lambda>f. \<lparr>fd_type = ''Form'', fd_id = f_id f, fd_name = f_name f,
                fd_sections =
                  json_agg (map (section_object d)
                    (filter (\<lambda>s. s_form_id s = f_id f) (sections d)))\<rparr>)
       (filter (\<lambda>f. Some (f_id f) = v) (forms d))"

text \<open>
  \<open>forms.id\<close> is the key of the table, so GROUP BY forms.id leaves the row of
  each selected form as it is. \<open>res.send(response.rows[0])\<close>: the first row, or
  \<open>undefined\<close> when the query found no form; \<open>res.send(500)\<close> when the query
  failed.
\<close>

datatype form_reply = SendDoc "form_doc option" | SendNumber nat

definition get_form_all :: "request \<Rightarrow> form_db \<Rightarrow> form_reply" where
  "get_form_all req d =
     (case bind_int (params req ''formId'') of
        Inl e \<Rightarrow> SendNumber 500
      | Inr v \<Rightarrow> SendDoc (case select_form v d of [] \<Rightarrow> None | r # rs \<Rightarrow> Some r))"

text \<open>
  What a reader of the document sees of the questions: the question objects of
  all its sections, a NULL array read as no object.
\<close>

definition array_items :: "'a list option \<Rightarrow> 'a list" where
  "array_items a = (case a of None \<Rightarrow> [] | Some xs \<Rightarrow> xs)"

definition doc_questions :: "form_doc \<Rightarrow> question_doc list" where
  "doc_questions doc = concat (map (\<lambda>sd. array_items (sd_questions sd)) (array_items (fd_sections doc)))"

definition reply_questions :: "form_reply \<Rightarrow> question_doc list" where
  "reply_questions r = (case r of SendDoc (Some doc) \<Rightarrow> doc_questions doc | _ \<Rightarrow> [])"

text \<open>
  The change of storage that archiving is: the archived flag of the question
  with the given id becomes true. No route of the sources performs it (the
  edit route that would is commented out); it is the state change whose effect
  on the query is stated below.
\<close>

definition archive_question :: "int \<Rightarrow> form_db \<Rightarrow> form_db" where
  "archive_question qid d =
     d\<lparr>question := map (\<lambda>q. if q_id q = qid then q\<lparr>q_archived := True\<rparr> else q) (question d)\<rparr>"

section \<open>Submissions\<close>

text \<open>
  Modelled from the spec: the submission slice of the store and the server route
  behind \<open>createOrGetSubmissionByFormId\<close> are not among the sources (only the
  call in the form page is). Section 4.2: look up an existing submission for
  (form, user); if absent, create one. The new row takes the next value of the
  id sequence.
\<close>

record submission_row =
  sub_id :: int
  sub_form_id :: int
  sub_user_id :: int

record submission_db =
  submissions :: "submission_row list"
  next_submission_id :: int

definition create_or_get_submission :: "int \<Rightarrow> int \<Rightarrow> submission_db \<Rightarrow> int \<times> submission_db" where
  "create_or_get_submission form_id uid d =
     (case find (\<lambda>r. sub_form_id r = form_id \<and> sub_user_id r = uid) (submissions d) of
        Some r \<Rightarrow> (sub_id r, d)
      | None \<Rightarrow>
          (next_submission_id d,
           d\<lparr>submissions :=
               submissions d @
                 [\<lparr>sub_id = next_submission_id d, sub_form_id = form_id, sub_user_id = uid\<rparr>],
             next_submission_id := next_submission_id d + 1\<rparr>))"

section \<open>The pipeline slice of the client store\<close>

datatype json =
  JNull | JBool bool | JNum int | JStr string | JArr "json list" | JObj "(string \<times> json) list"

record store =
  pipelines :: json
  selectedPipeline :: json

text \<open>
  An awaited request either resolves with the data of the response or rejects.
  An action is given the outcome of each request it makes and returns the new
  store together with the requests it made, in order.
\<close>

datatype outcome = Resolved json | Failed

datatype http_call = AxiosGet string | AxiosPost string json

definition fetchPipeline :: "outcome \<Rightarrow> store \<Rightarrow> store \<times> http_call list" where
  "fetchPipeline res st =
     (case res of
        Resolved data \<Rightarrow> (st\<lparr>pipelines := data\<rparr>, [AxiosGet ''/api/pipeline''])
      | Failed \<Rightarrow> (st\<lparr>pipelines := JArr []\<rparr>, [AxiosGet ''/api/pipeline'']))"

definition addPipeline :: "json \<Rightarrow> outcome \<Rightarrow> outcome \<Rightarrow> store \<Rightarrow> store \<times> http_call list" where
  "addPipeline newPipeline posted fetched st =
     (case posted of
        Resolved r \<Rightarrow>
          (let (st', calls) = fetchPipeline fetched st
           in (st', AxiosPost ''/api/pipeline'' newPipeline # calls))
      | Failed \<Rightarrow> (st, [AxiosPost ''/api/pipeline'' newPipeline]))"

definition fetchPipelineById :: "string \<Rightarrow> outcome \<Rightarrow> store \<Rightarrow> store \<times> http_call list" where
  "fetchPipelineById pipelineId res st =
     (case res of
        Resolved data \<Rightarrow>
          (st\<lparr>selectedPipeline := data\<rparr>, [AxiosGet (''/api/pipeline/'' @ pipelineId)])
      | Failed \<Rightarrow>
          (st\<lparr>selectedPipeline := JObj []\<rparr>, [AxiosGet (''/api/pipeline/'' @ pipelineId)]))"

section \<open>Example data\<close>

text \<open>
  A board with one pipeline, three statuses (the last without users) and two
  users; user 5 was assigned before user 2.
\<close>

definition board_db :: db where
  "board_db =
     \<lparr>pipeline = [\<lparr>p_id = 1, p_name = ''Volunteers''\<rparr>],
      pipeline_status =
        [\<lparr>ps_id = 1, ps_pipeline_id = 1, ps_name = ''Applied'', ps_order = 0\<rparr>,
         \<lparr>ps_id = 3, ps_pipeline_id = 1, ps_name = ''Interview'', ps_order = 1\<rparr>,
         \<lparr>ps_id = 4, ps_pipeline_id = 1, ps_name = ''Hired'', ps_order = 2\<rparr>],
      user_status =
        [\<lparr>us_user_id = 5, us_pipeline_status_id = 3\<rparr>,
         \<lparr>us_user_id = 2, us_pipeline_status_id = 1\<rparr>],
      users = [\<lparr>u_id = 2, u_username = ''john''\<rparr>, \<lparr>u_id = 5, u_username = ''mary''\<rparr>]\<rparr>"

text \<open>PUT /pipeline_status/1 with the body \<open>{order: 5, name: "Done"}\<close>.\<close>

definition update_status_request :: request where
  "update_status_request =
     \<lparr>req_params = [(''id'', ''1'')],
      req_body = [(''order'', PNum 5), (''name'', PText ''Done'')],
      req_authenticated = True\<rparr>"

text \<open>The same request with the body \<open>{order: 5, name: "3"}\<close>.\<close>

definition update_status_request_numeric :: request where
  "update_status_request_numeric =
     \<lparr>req_params = [(''id'', ''1'')],
      req_body = [(''order'', PNum 5), (''name'', PText ''3'')],
      req_authenticated = True\<rparr>"

text \<open>
  PUT /user_status/remove with the body \<open>{user_id: 2, pipeline_id: 1}\<close>, with the
  route parameters that the router binds for it.
\<close>

definition remove_request :: request where
  "remove_request =
     \<lparr>req_params = [(''userId'', ''remove'')],
      req_body = [(''user_id'', PNum 2), (''pipeline_id'', PNum 1)],
      req_authenticated = True\<rparr>"

text \<open>PUT /user_status/2 with the body \<open>{pipeline_status_id: 4}\<close>.\<close>

definition move_request :: request where
  "move_request =
     \<lparr>req_params = [(''userId'', ''2'')],
      req_body = [(''pipeline_status_id'', PNum 4)],
      req_authenticated = True\<rparr>"

text \<open>GET /1.\<close>

definition detail_request :: request where
  "detail_request =
     \<lparr>req_params = [(''pipelineId'', ''1'')],
      req_body = [], req_authenticated = False\<rparr>"



text \<open>
  A form with two sections and three questions, the second question archived;
  GET /1/all.
\<close>

definition application_form_db :: form_db where
  "application_form_db =
     \<lparr>forms = [\<lparr>f_id = 1, f_name = ''Application''\<rparr>],
      sections =
        [\<lparr>s_id = 10, s_form_id = 1, s_name = ''About you'', s_description = ''Who you are'',
          s_order = 0\<rparr>,
         \<lparr>s_id = 11, s_form_id = 1, s_name = ''References'', s_description = ''Who knows you'',
          s_order = 1\<rparr>],
      question =
        [\<lparr>q_id = 100, q_section_id = 10, q_question = ''Name'', q_description = ''Full name'',
          q_order = 0, q_answer_type = ''text'', q_archived = False\<rparr>,
         \<lparr>q_id = 101, q_section_id = 10, q_question = ''Age'', q_description = ''In years'',
          q_order = 1, q_answer_type = ''text'', q_archived = True\<rparr>,
         \<lparr>q_id = 102, q_section_id = 11, q_question = ''Referee'', q_description = ''Pick one'',
          q_order = 0, q_answer_type = ''dropdown'', q_archived = False\<rparr>],
      multiple_choice_answers = [\<lparr>mc_id = 7, mc_question_id = 102, mc_answer = ''Teacher''\<rparr>]\<rparr>"

definition form_request :: request where
  "form_request =
     \<lparr>req_params = [(''formId'', ''1'')],
      req_body = [], req_authenticated = False\<rparr>"

definition name_question_doc :: question_doc where
  "name_question_doc =
     \<lparr>qd_type = ''Question'', qd_question = ''Name'', qd_description = ''Full name'',
      qd_order = 0, qd_answer_type = ''text'', qd_multiple_choice_answers = None\<rparr>"

definition referee_question_doc :: question_doc where
  "referee_question_doc =
     \<lparr>qd_type = ''Question'', qd_question = ''Referee'', qd_description = ''Pick one'',
      qd_order = 0, qd_answer_type = ''dropdown'',
      qd_multiple_choice_answers =
        Some [\<lparr>mcd_type = ''MCAnswer'', mcd_id = 7, mcd_answer = ''Teacher''\<rparr>]\<rparr>"

text \<open>A store that holds one pipeline, and the pipeline a component wants to add.\<close>

definition loaded_store :: store where
  "loaded_store =
     \<lparr>pipelines = JArr [JObj [(''name'', JStr ''Volunteers'')]], selectedPipeline = JObj []\<rparr>"

definition donors_pipeline :: json where
  "donors_pipeline = JObj [(''name'', JStr ''Donors'')]"

section \<open>Routing and binding: helper facts\<close>

lemma int_in_range: "int_in s = Some i \<Longrightarrow> integer_range i"
  by (auto simp: int_in_def split: option.splits if_splits)

lemma params_text: "map_of (req_params req) k = Some s \<Longrightarrow> params req k = PText s"
  by (simp add: params_def)



lemma find_snoc_new: "find P xs = None \<Longrightarrow> P x \<Longrightarrow> find P (xs @ [x]) = Some x"
  by (induction xs) (auto split: if_splits)

lemma detail_join_iff:
  "r \<in> set (detail_join pid d) \<longleftrightarrow>
     (\<exists>us \<in> set (user_status d). \<exists>ps \<in> set (pipeline_status d).
      \<exists>p \<in> set (pipeline d). \<exists>u \<in> set (users d).
        us_pipeline_status_id us = ps_id ps \<and> ps_pipeline_id ps = p_id p \<and>
        us_user_id us = u_id u \<and> p_id p = pid \<and>
        r = \<lparr>pipeline_name = p_name p, pipeline_status_id = ps_id ps,
             pipeline_status_name = ps_name ps, order = ps_order ps,
             user_id = u_id u, username = u_username u\<rparr>)"
  by (auto simp: detail_join_def)

lemma no_slash_route_never_matches:
  "match_path ''pipeline_status/:id'' (CHR ''/'' # cs) = None"
  by (simp add: match_path_def)

text \<open>No request path reaches the handler of the status update, whatever its method.\<close>

lemma put_pipeline_status_unreachable:
  "dispatch m (CHR ''/'' # cs) \<noteq> Some (PutPipelineStatus, bs)"
  by (auto simp: dispatch_def routes_def no_slash_route_never_matches split: option.splits)

lemma remove_segments_match_move:
  "match_segments [[], ''user_status'', ''remove''] xs = Some bs \<Longrightarrow>
   match_segments [[], ''user_status'', '':userId''] xs = Some [(''userId'', ''remove'')]"
  by (cases xs; cases "tl xs"; cases "tl (tl xs)"; cases "tl (tl (tl xs))")
     (auto split: if_splits)

lemma remove_matches_move:
  "match_path ''/user_status/remove'' path = Some bs \<Longrightarrow>
   match_path ''/user_status/:userId'' path = Some [(''userId'', ''remove'')]"
  by (simp add: match_path_def remove_segments_match_move)

text \<open>
  No request reaches the handler registered for /user_status/remove: every path
  it matches is taken by the route /user_status/:userId before it.
\<close>

lemma put_user_status_remove_unreachable:
  "dispatch m path \<noteq> Some (PutUserStatusRemove, bs)"
  by (auto simp: dispatch_def routes_def dest: remove_matches_move split: option.splits)

section \<open>Pipeline statuses\<close>

text \<open>
  C1 (update status). The claim: update status(id, order, name) updates exactly
  the pipeline_status row whose id is the given id, sets its order and name to
  the given values and answers 200. The code does not: the route is registered
  without its leading slash, so the request PUT /pipeline_status/1 matches no
  route of the router; and the handler passes (id, order, name) to a statement
  whose parameters are (order, name, id), so that with the body
  \<open>{order: 5, name: "Done"}\<close> the statement compares the id column with
  \<open>Done\<close> and fails: the answer is 500 and no row changes.
\<close>

theorem update_status_misses_route_and_misbinds:
  "route_request PUT ''/pipeline_status/1'' (req_body update_status_request) True = None \<and>
   put_pipeline_status update_status_request board_db = (SendStatus 500, board_db)"
  by (simp add: route_request_def dispatch_def routes_def match_path_def
      put_pipeline_status_def update_status_request_def rejectUnauthenticated_def
      params_def body_def sql_update_pipeline_status_def int_in_def decimal_in_def integer_range_def digit_of_def)

text \<open>
  With a name that reads as a number the handler succeeds on the wrong row: for
  id 1, order 5 and name \<open>3\<close> it gives the status with id 3 the order 1 and the
  name \<open>5\<close>, and leaves the status with id 1 as it was.
\<close>

lemma update_status_numeric_name_hits_other_row:
  "put_pipeline_status update_status_request_numeric board_db =
     (SendStatus 200,
      board_db\<lparr>pipeline_status :=
        [\<lparr>ps_id = 1, ps_pipeline_id = 1, ps_name = ''Applied'', ps_order = 0\<rparr>,
         \<lparr>ps_id = 3, ps_pipeline_id = 1, ps_name = ''5'', ps_order = 1\<rparr>,
         \<lparr>ps_id = 4, ps_pipeline_id = 1, ps_name = ''Hired'', ps_order = 2\<rparr>]\<rparr>)"
  by (simp add: put_pipeline_status_def update_status_request_numeric_def
      rejectUnauthenticated_def params_def body_def sql_update_pipeline_status_def
      int_in_def decimal_in_def integer_range_def digit_of_def board_db_def show_int_def show_nat.simps digit_char_def)

section \<open>User statuses\<close>

text \<open>
  C2 (remove user status). The claim: remove user status(user_id, pipeline_id)
  deletes the user's status row for that pipeline and answers 204. The code does
  not: the request PUT /user_status/remove is taken by the route
  /user_status/:userId, registered before it, with \<open>remove\<close> as the user id; the
  update of that handler fails on the id, the answer is 500 and the row of
  user 2 is still there.
\<close>

theorem remove_user_status_is_shadowed:
  "route_request PUT ''/user_status/remove'' [(''user_id'', PNum 2), (''pipeline_id'', PNum 1)] True =
     Some (PutUserStatus, remove_request) \<and>
   put_user_status remove_request board_db = (SendStatus 500, board_db) \<and>
   \<lparr>us_user_id = 2, us_pipeline_status_id = 1\<rparr> \<in> set (user_status board_db)"
  by (simp add: route_request_def dispatch_def routes_def match_path_def
      put_user_status_def remove_request_def rejectUnauthenticated_def params_def body_def
      sql_update_user_status_def int_in_def decimal_in_def integer_range_def digit_of_def board_db_def)

text \<open>
  C3 (move user). For a request with a session whose user id reads as the
  integer \<open>u\<close> of the column's range (what \<open>int_in\<close> accepts) and whose new status
  id \<open>k\<close> is the id of a status: the answer is
  200; every user_status row of user \<open>u\<close> points to \<open>k\<close> afterwards, whatever
  status it pointed to before (no table of transitions is consulted); a row of
  another user is unchanged; no row is added or removed and no other table
  changes.
\<close>

theorem move_user_is_unconditional_update:
  assumes auth: "req_authenticated req"
    and uid: "map_of (req_params req) ''userId'' = Some s" "int_in s = Some u"
    and new: "bind_int (body req ''pipeline_status_id'') = Inr (Some k)"
    and fk: "k \<in> set (map ps_id (pipeline_status d))"
  shows "\<exists>d'. put_user_status req d = (SendStatus 200, d') \<and>
      length (user_status d') = length (user_status d) \<and>
      (\<forall>i < length (user_status d).
          us_user_id (user_status d' ! i) = us_user_id (user_status d ! i) \<and>
          (us_user_id (user_status d ! i) = u \<longrightarrow>
             us_pipeline_status_id (user_status d' ! i) = k) \<and>
          (us_user_id (user_status d ! i) \<noteq> u \<longrightarrow>
             user_status d' ! i = user_status d ! i)) \<and>
      pipeline d' = pipeline d \<and> pipeline_status d' = pipeline_status d \<and>
      users d' = users d"
proof (cases "filter (\<lambda>us. Some (us_user_id us) = Some u) (user_status d) = []")
  case True
  then have none: "\<forall>i < length (user_status d). us_user_id (user_status d ! i) \<noteq> u"
    by (auto simp: filter_empty_conv)
  from True have "put_user_status req d = (SendStatus 200, d)"
    using auth uid new
    by (simp add: put_user_status_def rejectUnauthenticated_def params_text
        sql_update_user_status_def)
  with none show ?thesis by simp
next
  case False
  let ?d' = "d\<lparr>user_status := map (\<lambda>us. if Some (us_user_id us) = Some u
                 then us\<lparr>us_pipeline_status_id := k\<rparr> else us) (user_status d)\<rparr>"
  from False have "put_user_status req d = (SendStatus 200, ?d')"
    using auth uid new fk
    by (simp add: put_user_status_def rejectUnauthenticated_def params_text
        sql_update_user_status_def)
  then show ?thesis by simp
qed

text \<open>
  User 2 moves from the first status to the last, past the one in between; the
  row of user 5 stays.
\<close>

theorem move_user_is_unconditional_update_witness:
  "req_authenticated move_request \<and>
   map_of (req_params move_request) ''userId'' = Some ''2'' \<and> int_in ''2'' = Some 2 \<and>
   bind_int (body move_request ''pipeline_status_id'') = Inr (Some 4) \<and>
   4 \<in> set (map ps_id (pipeline_status board_db)) \<and>
   put_user_status move_request board_db =
     (SendStatus 200,
      board_db\<lparr>user_status :=
        [\<lparr>us_user_id = 5, us_pipeline_status_id = 3\<rparr>,
         \<lparr>us_user_id = 2, us_pipeline_status_id = 4\<rparr>]\<rparr>)"
proof -
  have h1: "req_authenticated move_request"
    and h2: "map_of (req_params move_request) ''userId'' = Some ''2''"
    and h4: "bind_int (body move_request ''pipeline_status_id'') = Inr (Some 4)"
    by (simp_all add: move_request_def body_def integer_range_def)
  have h3: "int_in ''2'' = Some 2"
    by (simp add: int_in_def decimal_in_def integer_range_def digit_of_def)
  have h5: "4 \<in> set (map ps_id (pipeline_status board_db))"
    by (simp add: board_db_def)
  from move_user_is_unconditional_update [OF h1 h2 h3 h4 h5]
  obtain d' where r: "put_user_status move_request board_db = (SendStatus 200, d')"
    by blast
  have "put_user_status move_request board_db =
     (SendStatus 200,
      board_db\<lparr>user_status :=
        [\<lparr>us_user_id = 5, us_pipeline_status_id = 3\<rparr>,
         \<lparr>us_user_id = 2, us_pipeline_status_id = 4\<rparr>]\<rparr>)"
    using r
    by (simp add: put_user_status_def rejectUnauthenticated_def params_def body_def
        move_request_def sql_update_user_status_def int_in_def decimal_in_def integer_range_def digit_of_def board_db_def)
  with h1 h2 h3 h4 h5 show ?thesis by simp
qed

section \<open>The Kanban query\<close>

text \<open>
  C4 (get pipeline detail). For a pipeline id that reads as the integer \<open>pid\<close>
  of the column's range (what \<open>int_in\<close> accepts) the handler answers with a flat list of rows: the rows are sorted ascending by
  \<open>order\<close>; they are, with multiplicity, the rows of the join of user_status,
  pipeline_status, pipeline and user restricted to the pipeline \<open>pid\<close>, one row
  for each combination that joins and nothing grouped; the database is unchanged.
\<close>

theorem pipeline_detail_is_sorted_flat_join:
  assumes "map_of (req_params req) ''pipelineId'' = Some s" and "int_in s = Some pid"
  shows "\<exists>rows. get_pipeline_detail req d = (SendRows rows, d) \<and>
     sorted (map order rows) \<and>
     mset rows = mset (detail_join pid d) \<and>
     (\<forall>r. r \<in> set rows \<longleftrightarrow>
        (\<exists>us \<in> set (user_status d). \<exists>ps \<in> set (pipeline_status d).
         \<exists>p \<in> set (pipeline d). \<exists>u \<in> set (users d).
           us_pipeline_status_id us = ps_id ps \<and> ps_pipeline_id ps = p_id p \<and>
           us_user_id us = u_id u \<and> p_id p = pid \<and>
           r = \<lparr>pipeline_name = p_name p, pipeline_status_id = ps_id ps,
                pipeline_status_name = ps_name ps, order = ps_order ps,
                user_id = u_id u, username = u_username u\<rparr>))"
proof -
  let ?rows = "sort_key order (detail_join pid d)"
  have "get_pipeline_detail req d = (SendRows ?rows, d)"
    using assms by (simp add: get_pipeline_detail_def params_text select_detail_def)
  moreover have "sorted (map order ?rows)" by simp
  moreover have "mset ?rows = mset (detail_join pid d)" by simp
  moreover have "set ?rows = set (detail_join pid d)" by simp
  ultimately show ?thesis
    using detail_join_iff [of _ pid d] by blast
qed

text \<open>On the example board the row of john (order 0) comes before the row of mary.\<close>

theorem pipeline_detail_is_sorted_flat_join_witness:
  "map_of (req_params detail_request) ''pipelineId'' = Some ''1'' \<and> int_in ''1'' = Some 1 \<and>
   get_pipeline_detail detail_request board_db =
     (SendRows
        [\<lparr>pipeline_name = ''Volunteers'', pipeline_status_id = 1,
          pipeline_status_name = ''Applied'', order = 0, user_id = 2, username = ''john''\<rparr>,
         \<lparr>pipeline_name = ''Volunteers'', pipeline_status_id = 3,
          pipeline_status_name = ''Interview'', order = 1, user_id = 5, username = ''mary''\<rparr>],
      board_db)"
proof -
  have h1: "map_of (req_params detail_request) ''pipelineId'' = Some ''1''"
    by (simp add: detail_request_def)
  have h2: "int_in ''1'' = Some 1"
    by (simp add: int_in_def decimal_in_def integer_range_def digit_of_def)
  from pipeline_detail_is_sorted_flat_join [OF h1 h2, of board_db]
  obtain rows where r: "get_pipeline_detail detail_request board_db = (SendRows rows, board_db)"
    and m: "mset rows = mset (detail_join 1 board_db)"
    and srt: "sorted (map order rows)"
    by blast
  have "detail_join 1 board_db =
        [\<lparr>pipeline_name = ''Volunteers'', pipeline_status_id = 3,
          pipeline_status_name = ''Interview'', order = 1, user_id = 5, username = ''mary''\<rparr>,
         \<lparr>pipeline_name = ''Volunteers'', pipeline_status_id = 1,
          pipeline_status_name = ''Applied'', order = 0, user_id = 2, username = ''john''\<rparr>]"
    by (simp add: detail_join_def board_db_def)
  with r h1 h2 show ?thesis
    by (simp add: get_pipeline_detail_def params_def detail_request_def select_detail_def)
qed

text \<open>
  C10 (empty columns). The query starts from user_status and joins inwards, so
  for a pipeline id that reads as the integer \<open>pid\<close> of the column's range: a
  status that no user_status row
  points to has no row in the answer; and when no user_status row points to a
  status of the pipeline \<open>pid\<close> (the pipeline may well have statuses) the answer
  is the empty list.
\<close>

theorem pipeline_detail_omits_statuses_without_users:
  assumes "map_of (req_params req) ''pipelineId'' = Some s" and "int_in s = Some pid"
  shows "\<exists>rows. get_pipeline_detail req d = (SendRows rows, d) \<and>
     ((\<forall>us \<in> set (user_status d). us_pipeline_status_id us \<noteq> sid) \<longrightarrow>
        (\<forall>r \<in> set rows. pipeline_status_id r \<noteq> sid)) \<and>
     ((\<forall>us \<in> set (user_status d). \<forall>ps \<in> set (pipeline_status d).
          us_pipeline_status_id us = ps_id ps \<longrightarrow> ps_pipeline_id ps \<noteq> pid) \<longrightarrow>
        rows = [])"
proof -
  let ?rows = "sort_key order (detail_join pid d)"
  have reply: "get_pipeline_detail req d = (SendRows ?rows, d)"
    using assms by (simp add: get_pipeline_detail_def params_text select_detail_def)
  have mem: "set ?rows = set (detail_join pid d)" by simp
  have a: "(\<forall>us \<in> set (user_status d). us_pipeline_status_id us \<noteq> sid) \<longrightarrow>
        (\<forall>r \<in> set ?rows. pipeline_status_id r \<noteq> sid)"
    unfolding mem by (auto simp: detail_join_iff)
  have b: "(\<forall>us \<in> set (user_status d). \<forall>ps \<in> set (pipeline_status d).
          us_pipeline_status_id us = ps_id ps \<longrightarrow> ps_pipeline_id ps \<noteq> pid) \<longrightarrow>
        ?rows = []"
  proof
    assume none: "\<forall>us \<in> set (user_status d). \<forall>ps \<in> set (pipeline_status d).
          us_pipeline_status_id us = ps_id ps \<longrightarrow> ps_pipeline_id ps \<noteq> pid"
    have "detail_join pid d = []"
    proof (cases "detail_join pid d")
      case Nil
      then show ?thesis .
    next
      case (Cons r rs)
      then have "r \<in> set (detail_join pid d)" by simp
      with none have False
        unfolding detail_join_iff by force
      then show ?thesis ..
    qed
    then show "?rows = []" by simp
  qed
  from reply a b show ?thesis by blast
qed

text \<open>
  On the example board no row has the status 4 (Hired), which has no users; and
  the same board without user assignments gives the empty list although the
  pipeline 1 has three statuses.
\<close>

theorem pipeline_detail_omits_statuses_without_users_witness:
  "map_of (req_params detail_request) ''pipelineId'' = Some ''1'' \<and> int_in ''1'' = Some 1 \<and>
   length (filter (\<lambda>ps. ps_pipeline_id ps = 1) (pipeline_status board_db)) = 3 \<and>
   get_pipeline_detail detail_request (board_db\<lparr>user_status := []\<rparr>) =
     (SendRows [], board_db\<lparr>user_status := []\<rparr>) \<and>
   (\<exists>rows. get_pipeline_detail detail_request board_db = (SendRows rows, board_db) \<and>
      4 \<notin> set (map pipeline_status_id rows))"
proof -
  have h1: "map_of (req_params detail_request) ''pipelineId'' = Some ''1''"
    by (simp add: detail_request_def)
  have h2: "int_in ''1'' = Some 1"
    by (simp add: int_in_def decimal_in_def integer_range_def digit_of_def)
  have n: "length (filter (\<lambda>ps. ps_pipeline_id ps = 1) (pipeline_status board_db)) = 3"
    by (simp add: board_db_def)
  have e: "get_pipeline_detail detail_request (board_db\<lparr>user_status := []\<rparr>) =
     (SendRows [], board_db\<lparr>user_status := []\<rparr>)"
    using pipeline_detail_omits_statuses_without_users
      [OF h1 h2, of "board_db\<lparr>user_status := []\<rparr>" 4]
    by auto
  have "\<forall>us \<in> set (user_status board_db). us_pipeline_status_id us \<noteq> 4"
    by (simp add: board_db_def)
  with pipeline_detail_omits_statuses_without_users [OF h1 h2, of board_db 4]
  have f: "\<exists>rows. get_pipeline_detail detail_request board_db = (SendRows rows, board_db) \<and>
      4 \<notin> set (map pipeline_status_id rows)"
    by auto
  from h1 h2 n e f show ?thesis by blast
qed


section \<open>Pipelines\<close>




section \<open>Forms\<close>

lemma array_items_json_agg: "array_items (json_agg xs) = xs"
  by (simp add: array_items_def json_agg_def)

text \<open>
  Over sections with distinct ids, the questions collected section by section
  are the questions whose section is one of them, each once.
\<close>

lemma mset_concat_sections:
  assumes "distinct (map s_id S)"
  shows "mset (concat (map (\<lambda>s. map g (filter (\<lambda>q. q_section_id q = s_id s \<and> P q) Q)) S)) =
     image_mset g (filter_mset (\<lambda>q. P q \<and> q_section_id q \<in> s_id ` set S) (mset Q))"
  using assms
proof (induction S)
  case Nil
  then show ?case by simp
next
  case (Cons a S)
  from Cons.prems have fresh: "s_id a \<notin> s_id ` set S" by simp
  have split:
    "filter_mset (\<lambda>q. P q \<and> (q_section_id q = s_id a \<or> q_section_id q \<in> s_id ` set S)) (mset Q) =
       filter_mset (\<lambda>q. q_section_id q = s_id a \<and> P q) (mset Q) +
       filter_mset (\<lambda>q. P q \<and> q_section_id q \<in> s_id ` set S) (mset Q)"
    using fresh by (induction Q) auto
  from Cons show ?case by (simp add: split)
qed

lemma select_form_questions:
  "concat (map (\<lambda>sd. array_items (sd_questions sd))
      (array_items (json_agg (map (section_object d) S)))) =
   concat (map (\<lambda>s. map (question_object d)
      (filter (\<lambda>q. q_section_id q = s_id s \<and> \<not> q_archived q) (question d))) S)"
  by (simp add: array_items_json_agg section_object_def comp_def)

lemma reply_questions_get_form_all:
  assumes "map_of (req_params req) ''formId'' = Some s" and "int_in s = Some i"
  shows "reply_questions (get_form_all req d) =
     (if i \<in> f_id ` set (forms d)
      then concat (map (\<lambda>s. map (question_object d)
              (filter (\<lambda>q. q_section_id q = s_id s \<and> \<not> q_archived q) (question d)))
              (filter (\<lambda>s. s_form_id s = i) (sections d)))
      else [])"
proof (cases "filter (\<lambda>f. f_id f = i) (forms d)")
  case Nil
  then have "i \<notin> f_id ` set (forms d)"
    by (auto simp: filter_empty_conv)
  with Nil assms show ?thesis
    by (simp add: get_form_all_def params_def select_form_def reply_questions_def)
next
  case (Cons f fs)
  then have "f \<in> set (filter (\<lambda>f. f_id f = i) (forms d))" by simp
  then have fi: "f_id f = i" and mem: "i \<in> f_id ` set (forms d)" by auto
  from Cons assms fi mem show ?thesis
    by (simp add: get_form_all_def params_def select_form_def reply_questions_def
        doc_questions_def select_form_questions)
qed

lemma filter_archived:
  "filter (\<lambda>q. q_section_id q = a \<and> \<not> q_archived q)
     (map (\<lambda>q. if q_id q = qid then q\<lparr>q_archived := True\<rparr> else q) Q) =
   filter (\<lambda>q. q_section_id q = a \<and> (\<not> q_archived q \<and> q_id q \<noteq> qid)) Q"
  by (induction Q) auto

lemma question_object_archive:
  "question_object (archive_question qid d) = question_object d"
  by (rule ext) (simp add: question_object_def archive_question_def)

text \<open>
  C5 (archived questions). For a form id that reads as the integer \<open>i\<close> of the
  column's range, over
  sections with distinct ids: the question objects of the document are, each
  once, the objects of the questions of the sections of form \<open>i\<close> whose archived
  flag is false. After the flag of the question \<open>qid\<close> is set, the document has
  the objects of the same questions but \<open>qid\<close>, and the question table has the
  same rows with the same ids as before.
\<close>

theorem form_document_holds_unarchived_questions:
  assumes "map_of (req_params req) ''formId'' = Some s" and "int_in s = Some i"
    and "distinct (map s_id (sections d))"
  shows "mset (reply_questions (get_form_all req d)) =
      image_mset (question_object d)
        (filter_mset (\<lambda>q. \<not> q_archived q \<and> i \<in> f_id ` set (forms d) \<and>
            q_section_id q \<in> s_id ` {sec \<in> set (sections d). s_form_id sec = i})
          (mset (question d))) \<and>
    mset (reply_questions (get_form_all req (archive_question qid d))) =
      image_mset (question_object d)
        (filter_mset (\<lambda>q. q_id q \<noteq> qid \<and> \<not> q_archived q \<and> i \<in> f_id ` set (forms d) \<and>
            q_section_id q \<in> s_id ` {sec \<in> set (sections d). s_form_id sec = i})
          (mset (question d))) \<and>
    map q_id (question (archive_question qid d)) = map q_id (question d) \<and>
    length (question (archive_question qid d)) = length (question d)"
proof -
  let ?S = "filter (\<lambda>s. s_form_id s = i) (sections d)"
  have dist: "distinct (map s_id ?S)"
    using assms(3) by (simp add: distinct_map_filter)
  have set_S: "set ?S = {sec \<in> set (sections d). s_form_id sec = i}" by auto
  have a: "mset (reply_questions (get_form_all req d)) =
      image_mset (question_object d)
        (filter_mset (\<lambda>q. \<not> q_archived q \<and> i \<in> f_id ` set (forms d) \<and>
            q_section_id q \<in> s_id ` {sec \<in> set (sections d). s_form_id sec = i})
          (mset (question d)))"
  proof (cases "i \<in> f_id ` set (forms d)")
    case True
    then show ?thesis
      using mset_concat_sections
        [OF dist, of "question_object d" "\<lambda>q. \<not> q_archived q" "question d"]
      by (simp add: reply_questions_get_form_all [OF assms(1,2)] set_S)
  next
    case False
    then show ?thesis
      by (simp add: reply_questions_get_form_all [OF assms(1,2)])
  qed
  have sec': "sections (archive_question qid d) = sections d"
    and forms': "forms (archive_question qid d) = forms d"
    and q': "question (archive_question qid d) =
       map (\<lambda>q. if q_id q = qid then q\<lparr>q_archived := True\<rparr> else q) (question d)"
    by (simp_all add: archive_question_def)
  have b: "mset (reply_questions (get_form_all req (archive_question qid d))) =
      image_mset (question_object d)
        (filter_mset (\<lambda>q. q_id q \<noteq> qid \<and> \<not> q_archived q \<and> i \<in> f_id ` set (forms d) \<and>
            q_section_id q \<in> s_id ` {sec \<in> set (sections d). s_form_id sec = i})
          (mset (question d)))"
  proof (cases "i \<in> f_id ` set (forms d)")
    case True
    have r: "reply_questions (get_form_all req (archive_question qid d)) =
        concat (map (\<lambda>s. map (question_object d)
          (filter (\<lambda>q. q_section_id q = s_id s \<and> (\<not> q_archived q \<and> q_id q \<noteq> qid))
             (question d))) ?S)"
      using True
      by (simp add: reply_questions_get_form_all [OF assms(1,2)] sec' forms' q'
          filter_archived question_object_archive)
    have p: "(\<lambda>q. (\<not> q_archived q \<and> q_id q \<noteq> qid) \<and> q_section_id q \<in> s_id ` set ?S) =
          (\<lambda>q. q_id q \<noteq> qid \<and> \<not> q_archived q \<and> i \<in> f_id ` set (forms d) \<and>
            q_section_id q \<in> s_id ` {sec \<in> set (sections d). s_form_id sec = i})"
      using True by (auto simp: set_S)
    show ?thesis
      unfolding r mset_concat_sections [OF dist] p ..
  next
    case False
    then show ?thesis
      by (simp add: reply_questions_get_form_all [OF assms(1,2)] forms')
  qed
  have c: "map q_id (question (archive_question qid d)) = map q_id (question d)"
    by (simp add: q' comp_def if_distrib cong: if_cong)
  from a b c show ?thesis by (simp add: q')
qed

text \<open>
  The example form shows the questions Name and Referee and not the archived
  Age; after Name is archived too it shows Referee only, and the table still has
  the three rows 100, 101 and 102.
\<close>

theorem form_document_holds_unarchived_questions_witness:
  "map_of (req_params form_request) ''formId'' = Some ''1'' \<and> int_in ''1'' = Some 1 \<and>
   distinct (map s_id (sections application_form_db)) \<and>
   reply_questions (get_form_all form_request application_form_db) =
     [name_question_doc, referee_question_doc] \<and>
   reply_questions (get_form_all form_request (archive_question 100 application_form_db)) =
     [referee_question_doc] \<and>
   map q_id (question (archive_question 100 application_form_db)) = [100, 101, 102]"
proof -
  have h1: "map_of (req_params form_request) ''formId'' = Some ''1''"
    by (simp add: form_request_def)
  have h2: "int_in ''1'' = Some 1"
    by (simp add: int_in_def decimal_in_def integer_range_def digit_of_def)
  have h3: "distinct (map s_id (sections application_form_db))"
    by (simp add: application_form_db_def)
  have ids: "map q_id (question application_form_db) = [100, 101, 102]"
    by (simp add: application_form_db_def)
  from form_document_holds_unarchived_questions [OF h1 h2 h3, of 100] ids
  have kept: "map q_id (question (archive_question 100 application_form_db)) = [100, 101, 102]"
    by simp
  have before: "reply_questions (get_form_all form_request application_form_db) =
     [name_question_doc, referee_question_doc]"
    by (simp add: reply_questions_get_form_all [OF h1 h2] application_form_db_def
        question_object_def json_agg_def mc_answer_object_def
        name_question_doc_def referee_question_doc_def)
  have after: "reply_questions (get_form_all form_request
       (archive_question 100 application_form_db)) = [referee_question_doc]"
    by (simp add: reply_questions_get_form_all [OF h1 h2] application_form_db_def
        archive_question_def question_object_def json_agg_def mc_answer_object_def
        referee_question_doc_def)
  from h1 h2 h3 kept before after show ?thesis by simp
qed


section \<open>Submissions: create or get\<close>

text \<open>
  C6 (create or get submission). Two calls in sequence with the same form and
  user return the same submission id, and the second call leaves the table as
  the first call left it. The first call adds one row when the table had none
  for (form, user) and none otherwise, and the id it returns is the id of a row
  for (form, user).
\<close>

theorem create_or_get_submission_twice_same_id:
  "fst (create_or_get_submission f u (snd (create_or_get_submission f u d))) =
     fst (create_or_get_submission f u d) \<and>
   snd (create_or_get_submission f u (snd (create_or_get_submission f u d))) =
     snd (create_or_get_submission f u d) \<and>
   (\<exists>r \<in> set (submissions (snd (create_or_get_submission f u d))).
      sub_form_id r = f \<and> sub_user_id r = u \<and>
      sub_id r = fst (create_or_get_submission f u d)) \<and>
   length (submissions (snd (create_or_get_submission f u d))) =
     (if \<exists>r \<in> set (submissions d). sub_form_id r = f \<and> sub_user_id r = u
      then length (submissions d) else Suc (length (submissions d)))"
proof (cases "find (\<lambda>r. sub_form_id r = f \<and> sub_user_id r = u) (submissions d)")
  case None
  then have "\<not> (\<exists>r \<in> set (submissions d). sub_form_id r = f \<and> sub_user_id r = u)"
    by (auto simp: find_None_iff)
  with None show ?thesis
    by (simp add: create_or_get_submission_def find_snoc_new)
next
  case (Some r)
  then have "r \<in> set (submissions d) \<and> sub_form_id r = f \<and> sub_user_id r = u"
    by (auto simp: find_Some_iff)
  with Some show ?thesis
    by (auto simp: create_or_get_submission_def)
qed

section \<open>Store actions\<close>

text \<open>
  C9 (store actions), as the claim states it: every store action resets its
  slice to the empty value when its request fails. \<open>addPipeline\<close> does not: when
  its POST fails on a store that holds one pipeline, the store still holds it.
\<close>

theorem addPipeline_failure_keeps_pipelines:
  "pipelines (fst (addPipeline donors_pipeline Failed Failed loaded_store)) \<noteq> JArr []"
  by (simp add: addPipeline_def loaded_store_def)

text \<open>
  C9 (store actions), amended. \<open>fetchPipeline\<close> sets \<open>pipelines\<close> to the empty
  array when its request fails and to the data of the response when it
  succeeds, whatever the store held; \<open>fetchPipelineById\<close> does the same for
  \<open>selectedPipeline\<close> with the empty object; each leaves the other slice alone
  and makes its one request once. \<open>addPipeline\<close> sets no slice itself: when its
  POST fails the store is left as it was and nothing more is requested; when
  the POST succeeds it runs \<open>fetchPipeline\<close> once.
\<close>

theorem fetch_actions_reset_or_overwrite:
  "pipelines (fst (fetchPipeline Failed st)) = JArr [] \<and>
   pipelines (fst (fetchPipeline (Resolved data) st)) = data \<and>
   selectedPipeline (fst (fetchPipeline res st)) = selectedPipeline st \<and>
   snd (fetchPipeline res st) = [AxiosGet ''/api/pipeline''] \<and>
   selectedPipeline (fst (fetchPipelineById pid Failed st)) = JObj [] \<and>
   selectedPipeline (fst (fetchPipelineById pid (Resolved data) st)) = data \<and>
   pipelines (fst (fetchPipelineById pid res st)) = pipelines st \<and>
   snd (fetchPipelineById pid res st) = [AxiosGet (''/api/pipeline/'' @ pid)] \<and>
   addPipeline np Failed fetched st = (st, [AxiosPost ''/api/pipeline'' np]) \<and>
   addPipeline np (Resolved r) fetched st =
     (fst (fetchPipeline fetched st), [AxiosPost ''/api/pipeline'' np, AxiosGet ''/api/pipeline''])"
  by (cases res; cases fetched)
     (simp_all add: fetchPipeline_def fetchPipelineById_def addPipeline_def)


end
